theory Spec2Isabelle
  imports Main
begin

section \<open>Data model of micrograd/nn.py\<close>

text \<open>
  The scalar engine (\<open>micrograd.engine.Value\<close>) is imported by \<open>nn.py\<close> but is not among the
  sources. A \<open>Value\<close> is kept here as the two attributes that \<open>nn.py\<close> reads or assigns: its
  number \<open>data\<close> and its accumulated gradient \<open>grad\<close>. The numbers range over any linearly
  ordered commutative ring \<open>'a\<close> (the integers and the reals are instances): the scalar type
  is a parameter of the development. Rounding of machine floats is outside this model.

  \<open>Value\<close> objects are mutable and shared by reference: \<open>parameters()\<close> returns the very
  objects a neuron holds and \<open>zero_grad\<close> assigns to them in place. Objects therefore live in
  a store addressed by references, and a neuron holds references.
\<close>

record 'a Value =
  data :: 'a
  grad :: 'a

type_synonym ref = nat

type_synonym 'a store = "ref \<Rightarrow> 'a Value"

text \<open>
  The state that construction changes: the store, the next unused reference, and the ambient
  random generator, given by the sequence \<open>seed\<close> of the results of successive calls of
  \<open>random.uniform(-1,1)\<close> and the count \<open>drawn\<close> of calls made so far.
\<close>

record 'a world =
  heap :: "'a store"
  fresh :: ref
  seed :: "nat \<Rightarrow> 'a"
  drawn :: nat

text \<open>The exceptions that the modelled code can raise.\<close>

datatype error =
    WidthMismatch string int int
      \<comment> \<open>ValueError of line 102: register, the width got, the width expected\<close>
  | RegisterSpecError
      \<comment> \<open>ValueError of line 108: a list of input registers whose length is not 2\<close>
  | KeyError string
      \<comment> \<open>\<open>register_sizes[r]\<close> for a register without a recorded width\<close>
  | UnhashableList
      \<comment> \<open>TypeError: \<open>register_sizes[rin]\<close> with \<open>rin\<close> a list (line 110)\<close>
  | AppendArity
      \<comment> \<open>TypeError: \<open>list.append\<close> called with three arguments (line 110)\<close>
  | NotIterable
      \<comment> \<open>TypeError: \<open>zip(self.w, x)\<close> with \<open>x\<close> a scalar\<close>

text \<open>
  What a layer returns and what it is given: a single scalar or a sequence of scalars
  (\<open>Layer.__call__\<close> returns \<open>out[0]\<close> or \<open>out\<close>).
\<close>

datatype 'a activation = Scalar 'a | Vector "'a list"

record Neuron =
  w :: "ref list"
  b :: ref
  nonlin :: bool

record Layer =
  neurons :: "Neuron list"

record MLP =
  layers :: "Layer list"

text \<open>
  The keyword arguments that \<open>Layer\<close> forwards to \<open>Neuron\<close>: \<open>Neuron.__init__\<close> accepts the
  single keyword \<open>nonlin\<close>, so a \<open>kwargs\<close> dict is its entry for that key, if any.
\<close>

type_synonym kwargs = "bool option"

text \<open>An input register spec of an architecture step: a string, or a list of strings.\<close>

datatype rin = Name string | Names "string list"

type_synonym step = "rin \<times> int \<times> string \<times> kwargs"

text \<open>
  \<open>ArchitecturalModel\<close>: \<open>self.registers\<close> maps each register name to its value (\<open>None\<close> at
  construction); \<open>self.layers\<close>, here \<open>arch_layers\<close> (the field name \<open>layers\<close> is taken by
  \<open>MLP\<close>), holds the triples that \<open>__call__\<close> and \<open>parameters\<close> unpack.
\<close>

record 'a ArchitecturalModel =
  registers :: "string \<rightharpoonup> 'a activation option"
  arch_layers :: "(rin \<times> Layer \<times> string) list"

section \<open>The engine's operations\<close>

text \<open>
  Modelled from the spec: the constructor \<open>Value(x)\<close> of the absent engine, which makes a
  new scalar object with number \<open>x\<close> and accumulated gradient initialised to 0.
\<close>

definition new_Value :: "'a::linordered_idom \<Rightarrow> 'a world \<Rightarrow> ref \<times> 'a world" where
  "new_Value x s =
     (fresh s, s\<lparr>heap := (heap s)(fresh s := \<lparr>data = x, grad = 0\<rparr>), fresh := Suc (fresh s)\<rparr>)"

text \<open>
  Modelled from the spec: the rectified-linear operation \<open>relu\<close> of the absent engine,
  \<open>max(0, value)\<close>.
\<close>

definition relu :: "'a::linordered_idom \<Rightarrow> 'a" where
  "relu v = max 0 v"

text \<open>One call of \<open>random.uniform(-1,1)\<close>.\<close>

definition random_uniform :: "'a world \<Rightarrow> 'a \<times> 'a world" where
  "random_uniform s = (seed s (drawn s), s\<lparr>drawn := Suc (drawn s)\<rparr>)"

section \<open>Comprehensions\<close>

text \<open>A list comprehension whose element expression changes the state, left to right.\<close>

fun comprehension :: "'i list \<Rightarrow> ('i \<Rightarrow> 's \<Rightarrow> 'x \<times> 's) \<Rightarrow> 's \<Rightarrow> 'x list \<times> 's" where
  "comprehension [] f s = ([], s)"
| "comprehension (i # js) f s =
     (case f i s of (x, s1) \<Rightarrow>
        (case comprehension js f s1 of (xs, s2) \<Rightarrow> (x # xs, s2)))"

text \<open>A list comprehension whose element expression may raise: the first error ends it.\<close>

fun comprehension_raising :: "('x \<Rightarrow> error + 'y) \<Rightarrow> 'x list \<Rightarrow> error + 'y list" where
  "comprehension_raising f [] = Inr []"
| "comprehension_raising f (x # xs) =
     (case f x of
        Inl e \<Rightarrow> Inl e
      | Inr y \<Rightarrow> (case comprehension_raising f xs of Inl e \<Rightarrow> Inl e | Inr ys \<Rightarrow> Inr (y # ys)))"

section \<open>Module, Neuron, Layer, MLP\<close>

text \<open>
  \<open>Neuron.__init__\<close>: \<open>range(nin)\<close> is empty for \<open>nin \<le> 0\<close>, hence \<open>nat nin\<close> weights.
\<close>

definition Neuron_init :: "int \<Rightarrow> bool \<Rightarrow> 'a::linordered_idom world \<Rightarrow> Neuron \<times> 'a world" where
  "Neuron_init nin nl s =
     (case comprehension [0..<nat nin]
             (\<lambda>_ s0. case random_uniform s0 of (r, s1) \<Rightarrow> new_Value r s1) s of
        (ws, s1) \<Rightarrow>
          (case new_Value 0 s1 of
             (bias, s2) \<Rightarrow> (\<lparr>w = ws, b = bias, nonlin = nl\<rparr>, s2)))"

text \<open>
  \<open>Neuron.__call__\<close>: \<open>sum(gen, self.b)\<close> starts from the bias and adds the products
  \<open>wi*xi\<close> of the pairs of \<open>zip(self.w, x)\<close> from left to right; \<open>zip\<close> raises on a scalar.
\<close>

fun Neuron_call :: "'a::linordered_idom store \<Rightarrow> Neuron \<Rightarrow> 'a activation \<Rightarrow> error + 'a" where
  "Neuron_call h n (Scalar v) = Inl NotIterable"
| "Neuron_call h n (Vector x) =
     (let act = foldl (\<lambda>acc (wi, xi). acc + data (h wi) * xi) (data (h (b n))) (zip (w n) x)
      in Inr (if nonlin n then relu act else act))"

definition Neuron_parameters :: "Neuron \<Rightarrow> ref list" where
  "Neuron_parameters n = w n @ [b n]"

text \<open>\<open>Layer.__init__\<close>; an absent \<open>nonlin\<close> keyword leaves the neuron's default \<open>True\<close>.\<close>

definition Layer_init :: "int \<Rightarrow> int \<Rightarrow> kwargs \<Rightarrow> 'a::linordered_idom world \<Rightarrow> Layer \<times> 'a world" where
  "Layer_init nin nout kw s =
     (case comprehension [0..<nat nout]
             (\<lambda>_. Neuron_init nin (case kw of None \<Rightarrow> True | Some nl \<Rightarrow> nl)) s of
        (ns, s1) \<Rightarrow> (\<lparr>neurons = ns\<rparr>, s1))"

definition Layer_call :: "'a::linordered_idom store \<Rightarrow> Layer \<Rightarrow> 'a activation \<Rightarrow> error + 'a activation" where
  "Layer_call h l x =
     (case comprehension_raising (\<lambda>n. Neuron_call h n x) (neurons l) of
        Inl e \<Rightarrow> Inl e
      | Inr out \<Rightarrow> Inr (if length out = 1 then Scalar (out ! 0) else Vector out))"

definition Layer_parameters :: "Layer \<Rightarrow> ref list" where
  "Layer_parameters l = concat (map Neuron_parameters (neurons l))"

text \<open>\<open>ConjoinLayer\<close> and \<open>RegisterConjoinLayer\<close> override \<open>__init__\<close> of \<open>Layer\<close> only.\<close>

definition ConjoinLayer_init :: "Layer \<Rightarrow> Layer \<Rightarrow> int \<Rightarrow> kwargs \<Rightarrow> 'a::linordered_idom world \<Rightarrow> Layer \<times> 'a world" where
  "ConjoinLayer_init l1 l2 nout kw s =
     (case comprehension [0..<nat nout]
             (\<lambda>_. Neuron_init (int (length (neurons l1)) + int (length (neurons l2)))
                     (case kw of None \<Rightarrow> True | Some nl \<Rightarrow> nl)) s of
        (ns, s1) \<Rightarrow> (\<lparr>neurons = ns\<rparr>, s1))"

definition RegisterConjoinLayer_init :: "int \<Rightarrow> int \<Rightarrow> int \<Rightarrow> kwargs \<Rightarrow> 'a::linordered_idom world \<Rightarrow> Layer \<times> 'a world" where
  "RegisterConjoinLayer_init nin1 nin2 nout kw s =
     (case comprehension [0..<nat nout]
             (\<lambda>_. Neuron_init (nin1 + nin2) (case kw of None \<Rightarrow> True | Some nl \<Rightarrow> nl)) s of
        (ns, s1) \<Rightarrow> (\<lparr>neurons = ns\<rparr>, s1))"

text \<open>
  \<open>MLP.__init__\<close>: \<open>sz = [nin] + nouts\<close>, one layer per index of \<open>range(len(nouts))\<close>, with
  \<open>nonlin = (i != len(nouts)-1)\<close>. Both \<open>sz[i]\<close> and \<open>sz[i+1]\<close> are in range for these \<open>i\<close>.
\<close>

definition MLP_init :: "int \<Rightarrow> int list \<Rightarrow> 'a::linordered_idom world \<Rightarrow> MLP \<times> 'a world" where
  "MLP_init nin nouts s =
     (let sz = [nin] @ nouts in
      case comprehension [0..<length nouts]
             (\<lambda>i. Layer_init (sz ! i) (sz ! (i + 1)) (Some (int i \<noteq> int (length nouts) - 1))) s of
        (ls, s1) \<Rightarrow> (\<lparr>layers = ls\<rparr>, s1))"

text \<open>\<open>MLP.__call__\<close>: the loop \<open>for layer in self.layers: x = layer(x)\<close>.\<close>

fun MLP_loop :: "'a::linordered_idom store \<Rightarrow> Layer list \<Rightarrow> 'a activation \<Rightarrow> error + 'a activation" where
  "MLP_loop h [] x = Inr x"
| "MLP_loop h (layer # rest) x =
     (case Layer_call h layer x of Inl e \<Rightarrow> Inl e | Inr y \<Rightarrow> MLP_loop h rest y)"

definition MLP_call :: "'a::linordered_idom store \<Rightarrow> MLP \<Rightarrow> 'a activation \<Rightarrow> error + 'a activation" where
  "MLP_call h m x = MLP_loop h (layers m) x"

definition MLP_parameters :: "MLP \<Rightarrow> ref list" where
  "MLP_parameters m = concat (map Layer_parameters (layers m))"

section \<open>Module: parameters and zero_grad\<close>

text \<open>
  The classes that inherit \<open>zero_grad\<close> from \<open>Module\<close>, with the \<open>parameters\<close> method each
  one defines (\<open>Module\<close> itself returns the empty list; the two conjoin layers are \<open>Layer\<close>s).
\<close>

definition ArchitecturalModel_parameters :: "'a ArchitecturalModel \<Rightarrow> ref list" where
  "ArchitecturalModel_parameters m =
     concat (map (\<lambda>(_, layer, _). Layer_parameters layer) (arch_layers m))"

datatype 'a Module =
    A_Module
  | A_Neuron Neuron
  | A_Layer Layer
  | An_MLP MLP
  | An_ArchitecturalModel "'a ArchitecturalModel"

fun parameters :: "'a Module \<Rightarrow> ref list" where
  "parameters A_Module = []"
| "parameters (A_Neuron n) = Neuron_parameters n"
| "parameters (A_Layer l) = Layer_parameters l"
| "parameters (An_MLP m) = MLP_parameters m"
| "parameters (An_ArchitecturalModel m) = ArchitecturalModel_parameters m"

text \<open>\<open>Module.zero_grad\<close>: \<open>for p in self.parameters(): p.grad = 0\<close>, on the store.\<close>

definition zero_grad :: "'a::linordered_idom Module \<Rightarrow> 'a store \<Rightarrow> 'a store" where
  "zero_grad self h = fold (\<lambda>p h1. h1(p := (h1 p)\<lparr>grad := 0\<rparr>)) (parameters self) h"

section \<open>ArchitecturalModel.__init__\<close>

text \<open>
  The first loop (lines 96 to 102) over the architecture, on the dict \<open>register_sizes\<close>:
  a register without a width gets the step's width, a register with another width raises.
\<close>

fun register_pass :: "(string \<rightharpoonup> int) \<Rightarrow> step list \<Rightarrow> error + (string \<rightharpoonup> int)" where
  "register_pass register_sizes [] = Inr register_sizes"
| "register_pass register_sizes ((rin, nn, rout, kwa) # rest) =
     (case register_sizes rout of
        None \<Rightarrow> register_pass (register_sizes(rout \<mapsto> nn)) rest
      | Some expected \<Rightarrow>
          if expected \<noteq> nn then Inl (WidthMismatch rout nn expected)
          else register_pass register_sizes rest)"

text \<open>
  The body of the second loop (lines 106 to 110) for one step, given \<open>self.layers\<close> so far.
  Line 110 is not under an \<open>else\<close>, so it runs for every step that has not raised. It calls
  \<open>self.layers.append\<close> with three arguments; they are evaluated first, left to right. For a
  list \<open>rin\<close>, the subscript \<open>register_sizes[rin]\<close> raises (a list is unhashable), after the
  conjoin layer of line 109 has been built and appended. For a string \<open>rin\<close>, the \<open>Layer\<close> is
  built and then \<open>append\<close> itself raises, since it takes exactly one argument. No step
  leaves the body without an exception.
\<close>

definition layer_step ::
  "(string \<rightharpoonup> int) \<Rightarrow> step \<Rightarrow> (rin \<times> Layer \<times> string) list \<Rightarrow> 'a::linordered_idom world
     \<Rightarrow> (error + (rin \<times> Layer \<times> string) list) \<times> 'a world" where
  "layer_step register_sizes st ls s =
     (case st of (rin, nn, rout, kwa) \<Rightarrow>
        (case rin of
           Names rs \<Rightarrow>
             if length rs \<noteq> 2 then (Inl RegisterSpecError, s)
             else
               (case register_sizes (rs ! 0) of
                  None \<Rightarrow> (Inl (KeyError (rs ! 0)), s)
                | Some nin1 \<Rightarrow>
                    (case register_sizes (rs ! 1) of
                       None \<Rightarrow> (Inl (KeyError (rs ! 1)), s)
                     | Some nin2 \<Rightarrow>
                         (case register_sizes rout of
                            None \<Rightarrow> (Inl (KeyError rout), s)
                          | Some nout \<Rightarrow>
                              (case RegisterConjoinLayer_init nin1 nin2 nout kwa s of
                                 (conjoined, s1) \<Rightarrow> (Inl UnhashableList, s1)))))
         | Name r \<Rightarrow>
             (case register_sizes r of
                None \<Rightarrow> (Inl (KeyError r), s)
              | Some nin \<Rightarrow>
                  (case register_sizes rout of
                     None \<Rightarrow> (Inl (KeyError rout), s)
                   | Some nout \<Rightarrow>
                       (case Layer_init nin nout kwa s of
                          (layer, s1) \<Rightarrow> (Inl AppendArity, s1))))))"

text \<open>The second loop: the steps in order, until one raises.\<close>

fun layer_pass ::
  "(string \<rightharpoonup> int) \<Rightarrow> step list \<Rightarrow> (rin \<times> Layer \<times> string) list \<Rightarrow> 'a::linordered_idom world
     \<Rightarrow> (error + (rin \<times> Layer \<times> string) list) \<times> 'a world" where
  "layer_pass register_sizes [] ls s = (Inr ls, s)"
| "layer_pass register_sizes (st # rest) ls s =
     (case layer_step register_sizes st ls s of
        (Inl e, s1) \<Rightarrow> (Inl e, s1)
      | (Inr ls1, s1) \<Rightarrow> layer_pass register_sizes rest ls1 s1)"

text \<open>
  \<open>ArchitecturalModel.__init__\<close>: the registers \<open>I\<close>, \<open>O\<close> and the given ones, all \<open>None\<close>;
  the widths, from \<open>{"I": nin}\<close>; then the layers. The result is the raised error or the
  constructed object, with the state that construction leaves.
\<close>

definition ArchitecturalModel_init ::
  "int \<Rightarrow> string list \<Rightarrow> step list \<Rightarrow> 'a::linordered_idom world
     \<Rightarrow> (error + 'a ArchitecturalModel) \<times> 'a world" where
  "ArchitecturalModel_init nin regs architecture s =
     (let regs0 = [''I'' \<mapsto> None, ''O'' \<mapsto> None] ++ map_of (map (\<lambda>r. (r, None)) regs) in
      case register_pass [''I'' \<mapsto> nin] architecture of
        Inl e \<Rightarrow> (Inl e, s)
      | Inr register_sizes \<Rightarrow>
          (case layer_pass register_sizes architecture [] s of
             (Inl e, s1) \<Rightarrow> (Inl e, s1)
           | (Inr ls, s1) \<Rightarrow> (Inr \<lparr>registers = regs0, arch_layers = ls\<rparr>, s1)))"

section \<open>Notions used to state the properties\<close>

text \<open>The components of an architecture step \<open>(rin, nn, rout, kwa)\<close>.\<close>

definition rin_of :: "step \<Rightarrow> rin" where
  "rin_of st = (case st of (rin, nn, rout, kwa) \<Rightarrow> rin)"

definition nn_of :: "step \<Rightarrow> int" where
  "nn_of st = (case st of (rin, nn, rout, kwa) \<Rightarrow> nn)"

definition rout_of :: "step \<Rightarrow> string" where
  "rout_of st = (case st of (rin, nn, rout, kwa) \<Rightarrow> rout)"

text \<open>
  The composition that the spec compares a stack with: standalone layers applied one after
  the other, the result of each (an error included) handed to the next application. This
  definition follows the spec's words, not \<open>MLP.__call__\<close>.
\<close>

definition nested_layers ::
  "'a::linordered_idom store \<Rightarrow> Layer list \<Rightarrow> 'a activation \<Rightarrow> error + 'a activation" where
  "nested_layers h ls x =
     foldl (\<lambda>r l. case r of Inl e \<Rightarrow> Inl e | Inr v \<Rightarrow> Layer_call h l v) (Inr x) ls"

text \<open>
  The layers that the spec describes for a stack, built by hand one after the other from
  the same state (hence the same random numbers): widths \<open>[nin, nouts[0]]\<close>,
  \<open>[nouts[0], nouts[1]]\<close>, ..., every layer nonlinear except the last. This definition
  follows the spec's words, not \<open>MLP.__init__\<close>.
\<close>

fun standalone_layers ::
  "int \<Rightarrow> int list \<Rightarrow> 'a::linordered_idom world \<Rightarrow> Layer list \<times> 'a world" where
  "standalone_layers nin [] s = ([], s)"
| "standalone_layers nin (nout # rest) s =
     (case Layer_init nin nout (Some (rest \<noteq> [])) s of (l, s1) \<Rightarrow>
        (case standalone_layers nout rest s1 of (ls, s2) \<Rightarrow> (l # ls, s2)))"

text \<open>
  A concrete state on which the properties are exercised: nothing allocated yet, and a
  generator whose successive results are 1, 2, 3, ...
\<close>

definition example_world :: "int world" where
  "example_world =
     \<lparr>heap = (\<lambda>_. \<lparr>data = 0, grad = 0\<rparr>), fresh = 0, seed = (\<lambda>k. int k + 1), drawn = 0\<rparr>"

section \<open>zero_grad\<close>

lemma zero_fold_apply:
  "fold (\<lambda>p h1. h1(p := (h1 p)\<lparr>grad := 0\<rparr>)) ps h a =
     (if a \<in> set ps then (h a)\<lparr>grad := 0\<rparr> else h a)"
  by (induction ps arbitrary: h) auto

lemma zero_grad_apply:
  "zero_grad self h a = (if a \<in> set (parameters self) then (h a)\<lparr>grad := 0\<rparr> else h a)"
  by (simp add: zero_grad_def zero_fold_apply)

text \<open>
  C9. For every component (a bare module, a neuron, a layer, a stack, an architectural model)
  and every store, that is whatever the gradients were before, after \<open>zero_grad\<close> the
  accumulated gradient of every object that \<open>parameters()\<close> returns is 0.
\<close>

theorem zero_grad_resets:
  "\<forall>p \<in> set (parameters self). grad (zero_grad self h p) = 0"
  by (simp add: zero_grad_apply)

theorem zero_grad_resets_witness:
  "grad (zero_grad (A_Layer \<lparr>neurons = [\<lparr>w = [0, 1], b = 2, nonlin = True\<rparr>,
                                          \<lparr>w = [3, 4], b = 5, nonlin = True\<rparr>]\<rparr>)
          (\<lambda>r. \<lparr>data = int r, grad = 7\<rparr>) 4) = 0"
  using zero_grad_resets [of "A_Layer \<lparr>neurons = [\<lparr>w = [0, 1], b = 2, nonlin = True\<rparr>,
                                          \<lparr>w = [3, 4], b = 5, nonlin = True\<rparr>]\<rparr>"
          "\<lambda>r. \<lparr>data = int r, grad = 7\<rparr>"]
  by (simp add: Layer_parameters_def Neuron_parameters_def)

text \<open>
  C10. \<open>zero_grad\<close> writes the \<open>grad\<close> attribute of parameters and nothing else: the number
  \<open>data\<close> of every object in the store is what it was, and an object that is not among the
  component's parameters is unchanged altogether. The component itself (its weight lists,
  bias, layer list) is not assigned to: \<open>zero_grad\<close> returns a store only, and the references
  the component holds are the same before and after.
\<close>

theorem zero_grad_frame:
  "(\<forall>a. data (zero_grad self h a) = data (h a)) \<and>
   (\<forall>a. a \<notin> set (parameters self) \<longrightarrow> zero_grad self h a = h a)"
  by (simp add: zero_grad_apply)

theorem zero_grad_frame_witness:
  "data (zero_grad (An_MLP \<lparr>layers = [\<lparr>neurons = [\<lparr>w = [0, 1], b = 2, nonlin = False\<rparr>]\<rparr>]\<rparr>)
          (\<lambda>r. \<lparr>data = int r + 10, grad = 7\<rparr>) 1) = 11 \<and>
   9 \<notin> set (parameters (An_MLP \<lparr>layers = [\<lparr>neurons = [\<lparr>w = [0, 1], b = 2, nonlin = False\<rparr>]\<rparr>]\<rparr>)) \<and>
   zero_grad (An_MLP \<lparr>layers = [\<lparr>neurons = [\<lparr>w = [0, 1], b = 2, nonlin = False\<rparr>]\<rparr>]\<rparr>)
          (\<lambda>r. \<lparr>data = int r + 10, grad = 7\<rparr>) 9 = \<lparr>data = 19, grad = 7\<rparr>"
  using zero_grad_frame [of "An_MLP \<lparr>layers = [\<lparr>neurons = [\<lparr>w = [0, 1], b = 2, nonlin = False\<rparr>]\<rparr>]\<rparr>"
          "\<lambda>r. \<lparr>data = int r + 10, grad = 7\<rparr>"]
  by (simp add: MLP_parameters_def Layer_parameters_def Neuron_parameters_def)

section \<open>Neuron.__call__\<close>

lemma foldl_zip_sum:
  fixes f :: "'r \<Rightarrow> 'a::linordered_idom"
  shows "foldl (\<lambda>acc (wi, xi). acc + f wi * xi) acc0 (zip ws xs) =
     (\<Sum>i<min (length ws) (length xs). f (ws ! i) * xs ! i) + acc0"
proof (induction ws arbitrary: xs acc0)
  case Nil
  then show ?case by simp
next
  case (Cons a ws)
  show ?case
  proof (cases xs)
    case Nil
    then show ?thesis by simp
  next
    case (Cons y ys)
    then show ?thesis
      using Cons.IH [of "acc0 + f a * y" ys]
      by (simp add: sum.lessThan_Suc_shift add.commute add.left_commute del: sum.lessThan_Suc)
  qed
qed

text \<open>
  C5. A neuron with weights \<open>w\<^sub>1..w\<^sub>n\<close> and bias \<open>b\<close>, called on \<open>x\<^sub>1..x\<^sub>n\<close>: with \<open>nonlin\<close> false
  it returns the affine sum \<open>\<Sum> w\<^sub>i * x\<^sub>i + b\<close> itself; with \<open>nonlin\<close> true it returns 0 when the
  affine sum is at most 0 and the affine sum otherwise.
\<close>

theorem Neuron_call_affine:
  fixes h :: "'a::linordered_idom store"
  assumes "length x = length (w n)"
  shows "Neuron_call h n (Vector x) =
     (let a = (\<Sum>i<length (w n). data (h (w n ! i)) * x ! i) + data (h (b n))
      in if nonlin n then Inr (if a \<le> 0 then 0 else a) else Inr a)"
  using assms by (simp add: foldl_zip_sum relu_def Let_def max_def)

theorem Neuron_call_affine_witness:
  "length [- 5, 1 :: int] = length (w \<lparr>w = [0, 1], b = 2, nonlin = True\<rparr>) \<and>
   Neuron_call (\<lambda>r. \<lparr>data = int r + 1, grad = 0\<rparr>) \<lparr>w = [0, 1], b = 2, nonlin = True\<rparr>
     (Vector [- 5, 1]) = Inr 0 \<and>
   Neuron_call (\<lambda>r. \<lparr>data = int r + 1, grad = 0\<rparr>) \<lparr>w = [0, 1], b = 2, nonlin = False\<rparr>
     (Vector [- 5, 1]) = Inr 0 \<and>
   Neuron_call (\<lambda>r. \<lparr>data = int r + 1, grad = 0\<rparr>) \<lparr>w = [0, 1], b = 2, nonlin = False\<rparr>
     (Vector [- 6, 1]) = Inr (- 1) \<and>
   Neuron_call (\<lambda>r. \<lparr>data = int r + 1, grad = 0\<rparr>) \<lparr>w = [0, 1], b = 2, nonlin = True\<rparr>
     (Vector [- 6, 1]) = Inr 0"
  using Neuron_call_affine [of "[- 5, 1 :: int]" "\<lparr>w = [0, 1], b = 2, nonlin = True\<rparr>"
          "\<lambda>r. \<lparr>data = int r + 1, grad = 0\<rparr>"]
  by (simp add: relu_def)

text \<open>
  C8. A neuron called on a sequence whose length is not its number of weights does not
  raise: \<open>zip\<close> pairs the first \<open>min(nin, len(x))\<close> weights and inputs, the result is the sum
  of their products plus the bias (through \<open>relu\<close> for a nonlinear neuron), and the rest of
  the longer sequence is dropped.
\<close>

theorem Neuron_call_truncates:
  fixes h :: "'a::linordered_idom store"
  assumes "length x \<noteq> length (w n)"
  shows "Neuron_call h n (Vector x) =
     (let a = (\<Sum>i<min (length (w n)) (length x). data (h (w n ! i)) * x ! i) + data (h (b n))
      in Inr (if nonlin n then relu a else a))"
  by (simp add: foldl_zip_sum Let_def)

theorem Neuron_call_truncates_witness:
  "length [4, 1, 100 :: int] \<noteq> length (w \<lparr>w = [0, 1], b = 2, nonlin = True\<rparr>) \<and>
   Neuron_call (\<lambda>r. \<lparr>data = int r + 1, grad = 0\<rparr>) \<lparr>w = [0, 1], b = 2, nonlin = True\<rparr>
     (Vector [4, 1, 100]) = Inr 9 \<and>
   Neuron_call (\<lambda>r. \<lparr>data = int r + 1, grad = 0\<rparr>) \<lparr>w = [0, 1], b = 2, nonlin = True\<rparr>
     (Vector [4]) = Inr 7"
  using Neuron_call_truncates [of "[4, 1, 100 :: int]" "\<lparr>w = [0, 1], b = 2, nonlin = True\<rparr>"
          "\<lambda>r. \<lparr>data = int r + 1, grad = 0\<rparr>"]
  by (simp add: relu_def)

section \<open>Construction of neurons and layers\<close>

lemma comprehension_elems:
  assumes "comprehension js f s = (xs, s')"
    and "\<And>j s0. j \<in> set js \<Longrightarrow> P j (fst (f j s0))"
  shows "length xs = length js \<and> (\<forall>i<length js. P (js ! i) (xs ! i))"
  using assms
proof (induction js arbitrary: s xs s')
  case Nil
  then show ?case by simp
next
  case (Cons j js)
  obtain y s1 where f: "f j s = (y, s1)" by (cases "f j s")
  obtain ys s2 where r: "comprehension js f s1 = (ys, s2)" by (cases "comprehension js f s1")
  from Cons.prems(1) f r have xs: "xs = y # ys" by simp
  have "P j (fst (f j s))" using Cons.prems(2) by simp
  with f have Py: "P j y" by simp
  have IH: "length ys = length js \<and> (\<forall>i<length js. P (js ! i) (ys ! i))"
    using Cons.IH [OF r] Cons.prems(2) by simp
  show ?case
    using xs Py IH by (auto simp: nth_Cons split: nat.splits)
qed

lemma Neuron_init_shape:
  "length (w (fst (Neuron_init nin nl s))) = nat nin \<and> nonlin (fst (Neuron_init nin nl s)) = nl"
proof -
  obtain ws s1 where c: "comprehension [0..<nat nin]
             (\<lambda>_ s0. case random_uniform s0 of (r, s1) \<Rightarrow> new_Value r s1) s = (ws, s1)"
    by (cases "comprehension [0..<nat nin]
             (\<lambda>_ s0. case random_uniform s0 of (r, s1) \<Rightarrow> new_Value r s1) s")
  have "length ws = length [0..<nat nin]"
    using comprehension_elems [OF c, of "\<lambda>_ _. True"] by simp
  then show ?thesis
    by (simp add: Neuron_init_def c split: prod.splits)
qed

lemma Layer_init_shape:
  assumes "Layer_init nin nout kw s = (l, s')"
  shows "length (neurons l) = nat nout \<and>
         (\<forall>n \<in> set (neurons l). length (w n) = nat nin \<and>
              nonlin n = (case kw of None \<Rightarrow> True | Some nl \<Rightarrow> nl))"
proof -
  let ?f = "\<lambda>_ :: nat. Neuron_init nin (case kw of None \<Rightarrow> True | Some nl \<Rightarrow> nl) :: 'a world \<Rightarrow> Neuron \<times> 'a world"
  obtain ns s1 where c: "comprehension [0..<nat nout] ?f s = (ns, s1)"
    by (cases "comprehension [0..<nat nout] ?f s")
  have l: "l = \<lparr>neurons = ns\<rparr>" using assms c by (simp add: Layer_init_def)
  have "length ns = length [0..<nat nout] \<and>
        (\<forall>i<length [0..<nat nout]. length (w (ns ! i)) = nat nin \<and>
              nonlin (ns ! i) = (case kw of None \<Rightarrow> True | Some nl \<Rightarrow> nl))"
    by (rule comprehension_elems [OF c]) (simp add: Neuron_init_shape)
  then show ?thesis
    using l by (auto simp: in_set_conv_nth)
qed

section \<open>Layer.__call__\<close>

lemma comprehension_raising_Vector:
  "comprehension_raising (\<lambda>n. Neuron_call h n (Vector x)) ns =
     Inr (map (\<lambda>n. projr (Neuron_call h n (Vector x))) ns)"
  by (induction ns) (simp_all add: Let_def)

text \<open>
  C4. A layer constructed with output width \<open>nout\<close>, called on an input vector (of any
  length, the layer's input width included): for \<open>nout = 1\<close> the result is the scalar that
  its one neuron returns, not a sequence; for \<open>nout > 1\<close> it is the sequence of the \<open>nout\<close>
  results of its neurons, in the order of the neurons. No call on a vector raises.
\<close>

theorem Layer_call_shape:
  fixes h :: "'a::linordered_idom store"
  assumes "Layer_init nin nout kw s = (l, s')"
  shows "(nout = 1 \<longrightarrow>
            (\<exists>v. Neuron_call h (neurons l ! 0) (Vector x) = Inr v \<and>
                 Layer_call h l (Vector x) = Inr (Scalar v))) \<and>
         (nout > 1 \<longrightarrow>
            (\<exists>out. length out = nat nout \<and>
                 (\<forall>i<nat nout. Neuron_call h (neurons l ! i) (Vector x) = Inr (out ! i)) \<and>
                 Layer_call h l (Vector x) = Inr (Vector out)))"
proof -
  let ?out = "map (\<lambda>n. projr (Neuron_call h n (Vector x))) (neurons l)"
  have len: "length (neurons l) = nat nout"
    using Layer_init_shape [OF assms] by simp
  have call: "Layer_call h l (Vector x) = Inr (if length ?out = 1 then Scalar (?out ! 0) else Vector ?out)"
    by (simp add: Layer_call_def comprehension_raising_Vector del: Neuron_call.simps)
  have elems: "\<forall>i<nat nout. Neuron_call h (neurons l ! i) (Vector x) = Inr (?out ! i)"
    using len by (simp add: Let_def del: Neuron_call.simps) (simp add: Let_def)
  show ?thesis
  proof (intro conjI impI)
    assume one: "nout = 1"
    have "Neuron_call h (neurons l ! 0) (Vector x) = Inr (?out ! 0)"
      using elems one by simp
    moreover have "Layer_call h l (Vector x) = Inr (Scalar (?out ! 0))"
      using call len one by (simp del: Neuron_call.simps)
    ultimately show "\<exists>v. Neuron_call h (neurons l ! 0) (Vector x) = Inr v \<and>
                 Layer_call h l (Vector x) = Inr (Scalar v)"
      by blast
  next
    assume more: "nout > 1"
    have "length ?out = nat nout"
      using len by simp
    moreover have "Layer_call h l (Vector x) = Inr (Vector ?out)"
      using call len more by (simp del: Neuron_call.simps)
    ultimately show "\<exists>out. length out = nat nout \<and>
                 (\<forall>i<nat nout. Neuron_call h (neurons l ! i) (Vector x) = Inr (out ! i)) \<and>
                 Layer_call h l (Vector x) = Inr (Vector out)"
      using elems by blast
  qed
qed

theorem Layer_call_shape_witness:
  "Layer_call (heap (snd (Layer_init 2 1 None example_world)))
     (fst (Layer_init 2 1 None example_world)) (Vector [3, 4]) = Inr (Scalar 11) \<and>
   Layer_call (heap (snd (Layer_init 2 2 None example_world)))
     (fst (Layer_init 2 2 None example_world)) (Vector [3, 4]) = Inr (Vector [11, 25])"
proof -
  have c: "Layer_init 2 2 None example_world =
      (fst (Layer_init 2 2 None example_world), snd (Layer_init 2 2 None example_world))"
    by simp
  have ev: ?thesis
    by (simp add: Layer_call_def Layer_init_def Neuron_init_def new_Value_def random_uniform_def
          example_world_def upt_rec relu_def)
  from Layer_call_shape [OF c, of "heap (snd (Layer_init 2 2 None example_world))" "[3, 4]"] ev
  show ?thesis by blast
qed

section \<open>MLP\<close>

text \<open>
  C6. An \<open>MLP\<close> constructed from \<open>nin\<close> and \<open>nouts\<close> has one layer per entry of \<open>nouts\<close>.
  Layer \<open>i\<close> has \<open>nouts[i]\<close> neurons (its output width), each with \<open>([nin] + nouts)[i]\<close>
  weights (its input width), and its neurons are nonlinear exactly when \<open>i\<close> is not the last
  index. A width is a count: \<open>nat\<close> is the identity on the widths \<open>\<ge> 0\<close>, and \<open>range\<close> of a
  negative number is empty.
\<close>

theorem MLP_init_layers:
  assumes "MLP_init nin nouts s = (m, s')"
  shows "length (layers m) = length nouts \<and>
     (\<forall>i<length nouts.
        length (neurons (layers m ! i)) = nat (nouts ! i) \<and>
        (\<forall>n \<in> set (neurons (layers m ! i)).
            length (w n) = nat (([nin] @ nouts) ! i) \<and>
            nonlin n = (i \<noteq> length nouts - 1)))"
proof -
  let ?sz = "[nin] @ nouts"
  let ?f = "\<lambda>i. Layer_init (?sz ! i) (?sz ! (i + 1)) (Some (int i \<noteq> int (length nouts) - 1))
              :: 'a world \<Rightarrow> Layer \<times> 'a world"
  let ?P = "\<lambda>i l. length (neurons l) = nat (?sz ! (i + 1)) \<and>
              (\<forall>n \<in> set (neurons l). length (w n) = nat (?sz ! i) \<and>
                 nonlin n = (int i \<noteq> int (length nouts) - 1))"
  obtain ls s1 where c: "comprehension [0..<length nouts] ?f s = (ls, s1)"
    by (cases "comprehension [0..<length nouts] ?f s")
  have m: "m = \<lparr>layers = ls\<rparr>" using assms c by (simp add: MLP_init_def Let_def)
  have P: "\<And>j s0. j \<in> set [0..<length nouts] \<Longrightarrow> ?P j (fst (?f j s0))"
  proof -
    fix j and s0 :: "'a world"
    obtain l1 s2 where L: "?f j s0 = (l1, s2)" by (cases "?f j s0")
    show "?P j (fst (?f j s0))"
      using Layer_init_shape [OF L] L by simp
  qed
  have "length ls = length [0..<length nouts] \<and>
        (\<forall>i<length [0..<length nouts]. ?P ([0..<length nouts] ! i) (ls ! i))"
    by (rule comprehension_elems [OF c, where P = ?P]) (rule P)
  then show ?thesis
    using m by (auto simp: nth_Cons' of_nat_diff)
qed

theorem MLP_init_layers_witness:
  "length (layers (fst (MLP_init 2 [2, 1] example_world))) = 2 \<and>
   map (\<lambda>l. map (\<lambda>n. (length (w n), nonlin n)) (neurons l))
     (layers (fst (MLP_init 2 [2, 1] example_world))) = [[(2, True), (2, True)], [(2, False)]]"
proof -
  have c: "MLP_init 2 [2, 1] example_world =
      (fst (MLP_init 2 [2, 1] example_world), snd (MLP_init 2 [2, 1] example_world))"
    by simp
  have ev: ?thesis
    by (simp add: MLP_init_def Layer_init_def Neuron_init_def new_Value_def random_uniform_def
          example_world_def upt_rec)
  from MLP_init_layers [OF c] ev
  show ?thesis by blast
qed

lemma nested_Inl:
  "foldl (\<lambda>r l. case r of Inl e \<Rightarrow> Inl e | Inr v \<Rightarrow> Layer_call h l v) (Inl e) ls = Inl e"
  by (induction ls) simp_all

lemma MLP_loop_nested: "MLP_loop h ls x = nested_layers h ls x"
proof (induction ls arbitrary: x)
  case Nil
  then show ?case by (simp add: nested_layers_def)
next
  case (Cons l ls)
  show ?case
  proof (cases "Layer_call h l x")
    case (Inl e)
    then show ?thesis by (simp add: nested_layers_def nested_Inl)
  next
    case (Inr y)
    then show ?thesis using Cons.IH [of y] by (simp add: nested_layers_def)
  qed
qed

lemma comprehension_map:
  "comprehension (map g js) f s = comprehension js (\<lambda>j. f (g j)) s"
  by (induction js arbitrary: s) (simp_all split: prod.splits)

lemma comprehension_upt_Suc:
  "comprehension [0..<Suc n] f s =
     (case f 0 s of (x, s1) \<Rightarrow>
        (case comprehension [0..<n] (\<lambda>j. f (Suc j)) s1 of (xs, s2) \<Rightarrow> (x # xs, s2)))"
proof -
  have "[0..<Suc n] = 0 # map Suc [0..<n]"
    by (simp add: upt_conv_Cons map_Suc_upt del: upt_Suc)
  then show ?thesis
    by (simp add: comprehension_map del: upt_Suc)
qed

lemma MLP_comprehension_standalone:
  "comprehension [0..<length nouts]
     (\<lambda>i. Layer_init (([nin] @ nouts) ! i) (([nin] @ nouts) ! (i + 1))
            (Some (int i \<noteq> int (length nouts) - 1))) s =
   standalone_layers nin nouts s"
proof (induction nouts arbitrary: nin s)
  case Nil
  then show ?case by simp
next
  case (Cons nout rest)
  define F :: "nat \<Rightarrow> 'a world \<Rightarrow> Layer \<times> 'a world"
    where "F = (\<lambda>i. Layer_init (([nin] @ nout # rest) ! i) (([nin] @ nout # rest) ! (i + 1))
            (Some (int i \<noteq> int (length (nout # rest)) - 1)))"
  have F0: "F 0 = Layer_init nin nout (Some (rest \<noteq> []))"
    by (simp add: F_def)
  have FS: "(\<lambda>j. F (Suc j)) =
     (\<lambda>i. Layer_init (([nout] @ rest) ! i) (([nout] @ rest) ! (i + 1))
              (Some (int i \<noteq> int (length rest) - 1)))"
  proof (rule ext)
    fix j
    have flag: "(int (Suc j) \<noteq> int (length (nout # rest)) - 1) = (int j \<noteq> int (length rest) - 1)"
      by auto
    show "F (Suc j) = Layer_init (([nout] @ rest) ! j) (([nout] @ rest) ! (j + 1))
              (Some (int j \<noteq> int (length rest) - 1))"
      by (simp only: F_def flag) simp
  qed
  have "comprehension [0..<length (nout # rest)] F s = comprehension [0..<Suc (length rest)] F s"
    by simp
  also have "\<dots> = (case F 0 s of (x, s1) \<Rightarrow>
        (case comprehension [0..<length rest] (\<lambda>j. F (Suc j)) s1 of (xs, s2) \<Rightarrow> (x # xs, s2)))"
    by (rule comprehension_upt_Suc)
  also have "\<dots> = standalone_layers nin (nout # rest) s"
    by (simp only: F0 FS Cons.IH standalone_layers.simps)
  finally show ?case
    by (simp only: F_def)
qed

text \<open>
  C7. A stack is the sequence of standalone layers and nothing more. Constructing it builds,
  from the same state, exactly the layers that building them by hand gives (same widths,
  same nonlinearity flags, same weights, same state afterwards); evaluating it on an input
  is applying its layers as standalone layers, in order, each on the result of the one
  before: the loop of \<open>MLP.__call__\<close> computes \<open>nested_layers\<close>, errors included.
\<close>

theorem MLP_call_is_composition:
  "MLP_init nin nouts s =
     (case standalone_layers nin nouts s of (ls, s1) \<Rightarrow> (\<lparr>layers = ls\<rparr>, s1)) \<and>
   MLP_call h m x = nested_layers h (layers m) x"
  unfolding MLP_init_def Let_def MLP_comprehension_standalone
  by (simp add: MLP_call_def MLP_loop_nested)

theorem MLP_call_is_composition_witness:
  "MLP_call (heap (snd (MLP_init 2 [2, 1] example_world)))
     (fst (MLP_init 2 [2, 1] example_world)) (Vector [3, 4]) = Inr (Scalar 205) \<and>
   nested_layers (heap (snd (standalone_layers 2 [2, 1] example_world)))
     (fst (standalone_layers 2 [2, 1] example_world)) (Vector [3, 4]) = Inr (Scalar 205)"
proof -
  have ev: "MLP_call (heap (snd (MLP_init 2 [2, 1] example_world)))
     (fst (MLP_init 2 [2, 1] example_world)) (Vector [3, 4]) = Inr (Scalar 205)"
    by (simp add: MLP_call_def MLP_init_def Layer_call_def Layer_init_def Neuron_init_def
          new_Value_def random_uniform_def example_world_def upt_rec relu_def)
  from MLP_call_is_composition [of 2 "[2, 1]" example_world
      "heap (snd (MLP_init 2 [2, 1] example_world))" "fst (MLP_init 2 [2, 1] example_world)"
      "Vector [3, 4]"]
  have "MLP_init 2 [2, 1] example_world =
      (case standalone_layers 2 [2, 1] example_world of (ls, s1) \<Rightarrow> (\<lparr>layers = ls\<rparr>, s1))"
    and "MLP_call (heap (snd (MLP_init 2 [2, 1] example_world)))
      (fst (MLP_init 2 [2, 1] example_world)) (Vector [3, 4]) =
     nested_layers (heap (snd (MLP_init 2 [2, 1] example_world)))
      (layers (fst (MLP_init 2 [2, 1] example_world))) (Vector [3, 4])"
    by blast+
  with ev show ?thesis
    by (simp add: split_beta)
qed

section \<open>ArchitecturalModel.__init__: the width pass\<close>



lemma register_pass_error:
  assumes "register_pass rs arch = Inl e"
  shows "\<exists>k<length arch. \<exists>sizes expected.
           register_pass rs (take k arch) = Inr sizes \<and>
           sizes (rout_of (arch ! k)) = Some expected \<and>
           expected \<noteq> nn_of (arch ! k) \<and>
           e = WidthMismatch (rout_of (arch ! k)) (nn_of (arch ! k)) expected"
  using assms
proof (induction arch arbitrary: rs)
  case Nil
  then show ?case by simp
next
  case (Cons st arch)
  obtain rin nn rout kwa where st: "st = (rin, nn, rout, kwa)" by (cases st)
  have shift: "\<exists>k<length (st # arch). \<exists>sizes expected.
           register_pass rs (take k (st # arch)) = Inr sizes \<and>
           sizes (rout_of ((st # arch) ! k)) = Some expected \<and>
           expected \<noteq> nn_of ((st # arch) ! k) \<and>
           e = WidthMismatch (rout_of ((st # arch) ! k)) (nn_of ((st # arch) ! k)) expected"
    if rest: "register_pass rs1 arch = Inl e"
      and head: "\<And>xs. register_pass rs (st # xs) = register_pass rs1 xs" for rs1
  proof -
    from Cons.IH [OF rest] obtain k sizes expected where
      k: "k < length arch" "register_pass rs1 (take k arch) = Inr sizes"
         "sizes (rout_of (arch ! k)) = Some expected" "expected \<noteq> nn_of (arch ! k)"
         "e = WidthMismatch (rout_of (arch ! k)) (nn_of (arch ! k)) expected"
      by blast
    have "register_pass rs (take (Suc k) (st # arch)) = Inr sizes"
      using k(2) head by simp
    with k show ?thesis
      by (intro exI [of _ "Suc k"]) auto
  qed
  show ?case
  proof (cases "rs rout")
    case None
    with Cons.prems st have "register_pass (rs(rout \<mapsto> nn)) arch = Inl e" by simp
    moreover have "\<And>xs. register_pass rs (st # xs) = register_pass (rs(rout \<mapsto> nn)) xs"
      using None st by simp
    ultimately show ?thesis by (rule shift)
  next
    case (Some expected)
    show ?thesis
    proof (cases "expected = nn")
      case True
      with Cons.prems st Some have "register_pass rs arch = Inl e" by simp
      moreover have "\<And>xs. register_pass rs (st # xs) = register_pass rs xs"
        using Some True st by simp
      ultimately show ?thesis by (rule shift)
    next
      case False
      with Cons.prems st Some have "e = WidthMismatch rout nn expected" by simp
      with Some False show ?thesis
        by (intro exI [of _ 0]) (simp add: st rout_of_def nn_of_def)
    qed
  qed
qed






section \<open>ArchitecturalModel.__init__: the layer pass\<close>

text \<open>Every step raises, so a non-empty architecture never yields a model.\<close>

lemma layer_step_raises: "\<exists>e s1. layer_step sizes st ls s = (Inl e, s1)"
  by (auto simp: layer_step_def split: prod.splits rin.splits option.splits)

lemma layer_pass_raises:
  "architecture \<noteq> [] \<Longrightarrow> \<exists>e s1. layer_pass sizes architecture ls s = (Inl e, s1)"
proof (cases architecture)
  case Nil
  then show "architecture \<noteq> [] \<Longrightarrow> ?thesis" by simp
next
  case (Cons st rest)
  obtain e s1 where "layer_step sizes st ls s = (Inl e, s1)"
    using layer_step_raises by blast
  with Cons show ?thesis by simp
qed

lemma ArchitecturalModel_init_raises:
  "architecture \<noteq> [] \<Longrightarrow> \<exists>e. fst (ArchitecturalModel_init nin regs architecture s) = Inl e"
proof -
  assume ne: "architecture \<noteq> []"
  show ?thesis
  proof (cases "register_pass [''I'' \<mapsto> nin] architecture")
    case (Inl e)
    then show ?thesis by (simp add: ArchitecturalModel_init_def)
  next
    case (Inr sizes)
    obtain e s1 where "layer_pass sizes architecture [] s = (Inl e, s1)"
      using layer_pass_raises [OF ne] by blast
    with Inr show ?thesis by (simp add: ArchitecturalModel_init_def)
  qed
qed

text \<open>
  C1. The architecture of the class docstring with \<open>nin = 4\<close> and registers \<open>r0\<close>, \<open>r1\<close>. The
  width pass records \<open>r0 = 4\<close>, \<open>r1 = 4\<close>, \<open>O = 4\<close>, but construction does not succeed: the
  first step builds its layer and then calls \<open>list.append\<close> with three arguments, which
  raises \<open>TypeError\<close>. No model exists to be evaluated.
\<close>

theorem docstring_architecture_raises:
  "register_pass [''I'' \<mapsto> 4]
      [(Name ''I'', 4, ''r0'', None), (Name ''I'', 4, ''r1'', None),
       (Names [''r0'', ''r1''], 4, ''O'', None)] =
     Inr [''I'' \<mapsto> 4, ''r0'' \<mapsto> 4, ''r1'' \<mapsto> 4, ''O'' \<mapsto> 4] \<and>
   fst (ArchitecturalModel_init 4 [''r0'', ''r1'']
          [(Name ''I'', 4, ''r0'', None), (Name ''I'', 4, ''r1'', None),
           (Names [''r0'', ''r1''], 4, ''O'', None)] s) = Inl AppendArity"
  by (simp add: ArchitecturalModel_init_def layer_step_def split: prod.splits)

lemma layer_pass_RegisterSpecError:
  assumes "layer_pass sizes architecture ls s = (Inl RegisterSpecError, s1)"
  shows "\<exists>st \<in> set architecture. \<exists>rs. rin_of st = Names rs \<and> length rs \<noteq> 2"
proof (cases architecture)
  case Nil
  with assms show ?thesis by simp
next
  case (Cons st rest)
  obtain e s2 where r: "layer_step sizes st ls s = (Inl e, s2)"
    using layer_step_raises by blast
  with assms Cons have "layer_step sizes st ls s = (Inl RegisterSpecError, s1)" by simp
  then have "\<exists>rs. rin_of st = Names rs \<and> length rs \<noteq> 2"
    by (auto simp: layer_step_def rin_of_def split: prod.splits rin.splits option.splits if_splits)
  with Cons show ?thesis by simp
qed

text \<open>
  C3, as amended. When the width pass succeeds and the input spec of the first step is a list
  whose length is not two, construction raises the register-spec error, before any layer is
  built. Conversely the register-spec error is raised only if the input spec of some step is
  a list whose length is not two: never when every input spec is a single name or a list of
  two names.
\<close>

theorem register_spec_error:
  "(register_pass [''I'' \<mapsto> nin] ((Names rs, nn, rout, kwa) # rest) = Inr sizes \<and> length rs \<noteq> 2
      \<longrightarrow> ArchitecturalModel_init nin regs ((Names rs, nn, rout, kwa) # rest) s =
            (Inl RegisterSpecError, s)) \<and>
   (fst (ArchitecturalModel_init nin regs architecture s) = Inl RegisterSpecError
      \<longrightarrow> (\<exists>st \<in> set architecture. \<exists>rs. rin_of st = Names rs \<and> length rs \<noteq> 2))"
proof (intro conjI impI)
  assume "register_pass [''I'' \<mapsto> nin] ((Names rs, nn, rout, kwa) # rest) = Inr sizes \<and> length rs \<noteq> 2"
  then show "ArchitecturalModel_init nin regs ((Names rs, nn, rout, kwa) # rest) s =
            (Inl RegisterSpecError, s)"
    by (simp add: ArchitecturalModel_init_def layer_step_def)
next
  assume a: "fst (ArchitecturalModel_init nin regs architecture s) = Inl RegisterSpecError"
  show "\<exists>st \<in> set architecture. \<exists>rs. rin_of st = Names rs \<and> length rs \<noteq> 2"
  proof (cases "register_pass [''I'' \<mapsto> nin] architecture")
    case (Inl e)
    with a have "e = RegisterSpecError" by (simp add: ArchitecturalModel_init_def)
    with register_pass_error [OF Inl] show ?thesis by auto
  next
    case (Inr sizes)
    obtain r s1 where lp: "layer_pass sizes architecture [] s = (r, s1)"
      by (cases "layer_pass sizes architecture [] s")
    with a Inr have "r = Inl RegisterSpecError"
      by (auto simp: ArchitecturalModel_init_def split: sum.splits)
    with lp layer_pass_RegisterSpecError show ?thesis by blast
  qed
qed

theorem register_spec_error_witness:
  "ArchitecturalModel_init 4 [''a'', ''b'', ''c'']
      [(Names [''a'', ''b'', ''c''], 4, ''O'', None)] example_world =
     (Inl RegisterSpecError, example_world) \<and>
   (\<exists>st \<in> set [(Names [''a'', ''b'', ''c''], 4 :: int, ''O'', None :: kwargs)].
       \<exists>rs. rin_of st = Names rs \<and> length rs \<noteq> 2)"
  using register_spec_error [of 4 "[''a'', ''b'', ''c'']" 4 "''O''" None "[]" "[''I'' \<mapsto> 4, ''O'' \<mapsto> 4]"
          "[''a'', ''b'', ''c'']" example_world "[(Names [''a'', ''b'', ''c''], 4, ''O'', None)]"]
  by (simp add: rin_of_def)

text \<open>
  The claim C3 as stated fails: the input spec of step 1 is a list of three names, and
  construction raises the width-mismatch error of the width pass, which runs first.
\<close>

theorem register_spec_error_preempted:
  "rin_of ([(Name ''I'', 4, ''r0'', None), (Names [''a'', ''b'', ''c''], 5, ''r0'', None)] ! 1) =
     Names [''a'', ''b'', ''c''] \<and>
   ArchitecturalModel_init 4 [''r0'', ''a'', ''b'', ''c'']
       [(Name ''I'', 4, ''r0'', None), (Names [''a'', ''b'', ''c''], 5, ''r0'', None)] example_world =
     (Inl (WidthMismatch ''r0'' 5 4), example_world)"
  by (simp add: rin_of_def ArchitecturalModel_init_def)


end
